theory Spec2Isabelle
  imports Complex_Main
begin

section \<open>JavaScript values and strings\<close>

text \<open>
  The two programs, \<^verbatim>\<open>mock-api.js\<close> (a wrapper around the browser's fetch function)
  and \<^verbatim>\<open>backend-example.js\<close> (an Express route), are modelled as functions from a
  request to the response they produce. Strings are lists of characters; a character
  beyond ASCII is written as its UTF-8 bytes. Timing (the simulated delays between chunks)
  is not part of the model: a streamed body is the list of chunks in the order written.
  The random number of a request enters as an explicit argument \<open>draw\<close>, which gives
  the index drawn from a list of a given length.
\<close>

datatype json =
    JNull
  | JBool bool
  | JNum rat
  | JStr string
  | JArr "json list"
  | JObj "(string \<times> json) list"

text \<open>
  A JavaScript value that may be \<^verbatim>\<open>undefined\<close> is a \<open>json option\<close>, \<open>None\<close> being
  \<^verbatim>\<open>undefined\<close>. A number is the value \<^verbatim>\<open>JSON.parse\<close> produced; both zeros are \<open>0\<close>.
\<close>

datatype js_error =
    TypeError
  | SyntaxError
  | Error string
  | MulterError string

text \<open>
  The outcome of a step that may throw. \<open>Unmodelled\<close> marks the one situation the model
  leaves out: indexing an object that has a \<^verbatim>\<open>length\<close> property (an array-like object
  sent in place of the messages array), whose index arithmetic is JavaScript's number
  conversion.
\<close>

datatype 'a js = Return 'a | Throw js_error | Unmodelled

fun truthy :: "json option \<Rightarrow> bool" where
  "truthy None = False"
| "truthy (Some JNull) = False"
| "truthy (Some (JBool b)) = b"
| "truthy (Some (JNum n)) = (n \<noteq> 0)"
| "truthy (Some (JStr s)) = (s \<noteq> [])"
| "truthy (Some (JArr xs)) = True"
| "truthy (Some (JObj fs)) = True"

text \<open>
  Property access \<^verbatim>\<open>v.name\<close> for the names the programs read
  (\<^verbatim>\<open>messages\<close>, \<^verbatim>\<open>stream\<close>, \<^verbatim>\<open>content\<close>): an object is looked up, \<^verbatim>\<open>null\<close> throws,
  every other value has no such property. A parsed object has one binding per key.
\<close>

fun get_prop :: "json \<Rightarrow> string \<Rightarrow> json option js" where
  "get_prop JNull k = Throw TypeError"
| "get_prop (JObj fs) k = Return (map_of fs k)"
| "get_prop v k = Return None"

text \<open>
  \<^verbatim>\<open>xs[xs.length - 1]\<close>. An array gives its last element, or \<^verbatim>\<open>undefined\<close> when empty;
  a string gives its last character as a string; a boolean or a number has no length, the
  index is \<^verbatim>\<open>NaN\<close> and the result \<^verbatim>\<open>undefined\<close>; an object without a \<^verbatim>\<open>length\<close> property is
  read at the key \<^verbatim>\<open>NaN\<close>; \<^verbatim>\<open>null\<close> throws.
\<close>

fun last_element :: "json \<Rightarrow> json option js" where
  "last_element JNull = Throw TypeError"
| "last_element (JArr xs) = Return (if xs = [] then None else Some (last xs))"
| "last_element (JStr s) = Return (if s = [] then None else Some (JStr [last s]))"
| "last_element (JObj fs) =
     (case map_of fs ''length'' of
        None \<Rightarrow> Return (map_of fs ''NaN'')
      | Some l \<Rightarrow> Unmodelled)"
| "last_element v = Return None"

subsection \<open>String operations\<close>

text \<open>
  \<^verbatim>\<open>toLowerCase\<close>. The ASCII capital letters are folded. Of the characters beyond ASCII,
  the two whose lower case contains an ASCII letter are written out: U+212A KELVIN SIGN
  (the bytes E2 84 AA) becomes \<^verbatim>\<open>k\<close>, and U+0130 (the bytes C4 B0) becomes \<^verbatim>\<open>i\<close> followed
  by U+0307 (the bytes CC 87). The lower case of every other character beyond ASCII is
  again beyond ASCII; the model keeps its bytes, and the keyword tests, which look for
  ASCII words, do not depend on them.
\<close>

definition lower_char :: "char \<Rightarrow> char" where
  "lower_char c =
     (let n = (of_char c :: nat)
      in if 65 \<le> n \<and> n \<le> 90 then char_of (n + 32) else c)"

fun toLowerCase :: "string \<Rightarrow> string" where
  "toLowerCase [] = []"
| "toLowerCase (c # cs) =
     (if c = CHR 0xE2 \<and> take 2 cs = [CHR 0x84, CHR 0xAA]
      then CHR ''k'' # toLowerCase (drop 2 cs)
      else if c = CHR 0xC4 \<and> take 1 cs = [CHR 0xB0]
      then CHR ''i'' # CHR 0xCC # CHR 0x87 # toLowerCase (drop 1 cs)
      else lower_char c # toLowerCase cs)"

fun startsWith :: "string \<Rightarrow> string \<Rightarrow> bool" where
  "startsWith s [] = True"
| "startsWith [] (p # ps) = False"
| "startsWith (c # cs) (p # ps) = (c = p \<and> startsWith cs ps)"

definition endsWith :: "string \<Rightarrow> string \<Rightarrow> bool" where
  "endsWith s p = startsWith (rev s) (rev p)"

text \<open>\<^verbatim>\<open>s.includes(p)\<close>: \<open>p\<close> occurs in \<open>s\<close> as a contiguous run.\<close>

fun str_includes :: "string \<Rightarrow> string \<Rightarrow> bool" where
  "str_includes [] p = (p = [])"
| "str_includes (c # cs) p = (startsWith (c # cs) p \<or> str_includes cs p)"

text \<open>\<^verbatim>\<open>s.split(' ')\<close>: cut at every single space; the result is never empty.\<close>

fun split_space :: "string \<Rightarrow> string list" where
  "split_space [] = [[]]"
| "split_space (c # cs) =
     (if c = CHR '' '' then [] # split_space cs
      else (case split_space cs of
              [] \<Rightarrow> [[c]]
            | w # ws \<Rightarrow> (c # w) # ws))"

text \<open>\<^verbatim>\<open>xs.join(sep)\<close>.\<close>

fun join :: "string \<Rightarrow> string list \<Rightarrow> string" where
  "join sep [] = []"
| "join sep [x] = x"
| "join sep (x # y # ys) = x @ sep @ join sep (y # ys)"

text \<open>The decimal digits of a number, as a template literal prints it.\<close>

fun digits :: "nat \<Rightarrow> string" where
  "digits n =
     (if n < 10 then [char_of (48 + n)]
      else digits (n div 10) @ [char_of (48 + n mod 10)])"

declare digits.simps [simp del]

text \<open>
  \<^verbatim>\<open>xs[Math.floor(Math.random() * xs.length)]\<close>. The product is computed in floating
  point, which the model does not redo: the argument \<open>draw\<close> stands for the random number
  of the request and gives, for a length \<open>n\<close>, the value of
  \<^verbatim>\<open>Math.floor(Math.random() * n)\<close>. For a random number below 1 and the lengths 2, 3, 5
  and 7 of the categories the product rounds to a number below \<open>n\<close>, so \<open>draw n < n\<close>; past
  the end the read would be \<^verbatim>\<open>undefined\<close>, which the model writes as \<open>None\<close>.
\<close>

definition pick :: "(nat \<Rightarrow> nat) \<Rightarrow> 'a list \<Rightarrow> 'a option" where
  "pick draw xs =
     (let i = draw (length xs)
      in if i < length xs then Some (xs ! i) else None)"

section \<open>The fetch wrapper of mock-api.js\<close>

subsection \<open>The reply corpus\<close>

definition mockResponses :: "string list" where
  "mockResponses =
    [''I'm a demo AI assistant! I can help you with various questions and tasks. '' @
     ''What would you like to know?'',
     ''This is a simulated response from the Professional AI Chatbot. In a real '' @
     ''implementation, I would be powered by your choice of AI model through '' @
     ''your backend API.'',
     ''Great question! As a demo bot, I can show you how markdown formatting '' @
     ''works:\<newline>\<newline>**Bold text**\<newline>*Italic text*\<newline>'' @
     ''\<newline>```javascript\<newline>console.log('Code highlighting!');\<newline>'' @
     ''```\<newline>\<newline>And even lists:\<newline>- Feature 1\<newline>- '' @
     ''Feature 2\<newline>- Feature 3'',
     ''I notice this is a demo environment. The chatbot supports:\<newline>\<newline>'' @
     [CHR 0xF0, CHR 0x9F, CHR 0x8E, CHR 0xA8] @
     '' **Rich Formatting** - Markdown and code highlighting\<newline>'' @
     [CHR 0xF0, CHR 0x9F, CHR 0x93, CHR 0x81] @
     '' **File Uploads** - Attach documents and images\<newline>'' @
     [CHR 0xF0, CHR 0x9F, CHR 0x8E, CHR 0xAF] @
     '' **Customizable** - Themes, sizing, positioning\<newline>'' @
     [CHR 0xF0, CHR 0x9F, CHR 0x92, CHR 0xBE] @
     '' **Export** - Download conversation history\<newline>'' @
     [CHR 0xF0, CHR 0x9F, CHR 0x8C, CHR 0x99] @
     '' **Dark Mode** - Light/dark theme switching'',
     ''This chatbot component is built with vanilla JavaScript and can be integrated '' @
     ''into any web application. It's framework-agnostic and works with React, '' @
     ''Vue, Angular, or plain HTML!'']"

definition codeExamples :: "string list" where
  "codeExamples =
    [''Here's a Python example:\<newline>\<newline>```python\<newline>def hello_world():\<newline>'' @
     ''    print('Hello from the AI Chatbot!')\<newline>    return 'Demo response'\<newline>'' @
     ''\<newline>hello_world()\<newline>```'',
     ''And here's some JavaScript:\<newline>\<newline>```javascript\<newline>'' @
     ''const chatbot = createChatbot({\<newline>    endpoint: '/api/chat',\<newline>'' @
     ''    theme: 'dark',\<newline>    heading: 'My AI Assistant'\<newline>});\<newline>'' @
     ''\<newline>chatbot.show();\<newline>```'',
     ''CSS styling example:\<newline>\<newline>```css\<newline>.my-custom-theme '' @
     ''{\<newline>    --primary-color: #6366f1;\<newline>    --background: #f8fafc;\<newline>'' @
     ''    border-radius: 16px;\<newline>}\<newline>```'']"

definition technicalResponses :: "string list" where
  "technicalResponses =
    [''The chatbot uses modern web standards including:\<newline>\<newline>- '' @
     ''**Web Components** for encapsulation\<newline>- **CSS Custom Properties** '' @
     ''for theming\<newline>- **Intersection Observer** for performance\<newline>'' @
     ''- **File API** for attachments\<newline>- **Local Storage** for persistence'',
     ''Performance optimizations include:\<newline>\<newline>'' @
     [CHR 0xE2, CHR 0x9C, CHR 0x85] @
     '' Lazy loading of resources\<newline>'' @
     [CHR 0xE2, CHR 0x9C, CHR 0x85] @
     '' Efficient DOM manipulation\<newline>'' @
     [CHR 0xE2, CHR 0x9C, CHR 0x85] @
     '' Debounced resize handlers\<newline>'' @
     [CHR 0xE2, CHR 0x9C, CHR 0x85] @
     '' Minimal bundle size (31.3KB)\<newline>'' @
     [CHR 0xE2, CHR 0x9C, CHR 0x85] @
     '' Tree-shakeable modules'']"

text \<open>The fixed text \<^verbatim>\<open>generateResponse\<close> returns for an integration question.\<close>

definition integrationReply :: string where
  "integrationReply =
     ''Integration is simple! Just include the script and initialize:\<newline>'' @
     ''\<newline>```html\<newline><script src=\"portable-chatbot.js\" \<newline>'' @
     ''        data-chatbot-endpoint=\"/api/chat\"\<newline>        data-chatbot-heading=\"My '' @
     ''Bot\"></script>\<newline>```\<newline>\<newline>Or programmatically:\<newline>'' @
     ''\<newline>```javascript\<newline>const bot = createChatbot({\<newline>'' @
     ''    endpoint: '/api/chat',\<newline>    theme: 'dark'\<newline>});\<newline>'' @
     ''```''"

text \<open>
  \<^verbatim>\<open>generateResponse(message)\<close>. The result is \<open>None\<close> only if the index drawn were past the
  end of the category.
\<close>

definition generateResponse :: "(nat \<Rightarrow> nat) \<Rightarrow> string \<Rightarrow> string option" where
  "generateResponse draw message =
     (let lowerMsg = toLowerCase message
      in if str_includes lowerMsg ''code'' \<or> str_includes lowerMsg ''javascript''
            \<or> str_includes lowerMsg ''python''
         then pick draw codeExamples
         else if str_includes lowerMsg ''technical'' \<or> str_includes lowerMsg ''performance''
            \<or> str_includes lowerMsg ''optimize''
         then pick draw technicalResponses
         else if str_includes lowerMsg ''how''
            \<and> (str_includes lowerMsg ''work'' \<or> str_includes lowerMsg ''integrate'')
         then Some integrationReply
         else pick draw mockResponses)"

subsection \<open>Requests and responses\<close>

text \<open>
  The first argument of fetch: a string, a \<^verbatim>\<open>URL\<close> object (its \<^verbatim>\<open>pathname\<close>), or anything
  else (a \<^verbatim>\<open>Request\<close> object).
\<close>

datatype url = UrlString string | UrlObject string | UrlOther

text \<open>
  An entry of a \<^verbatim>\<open>FormData\<close> body is a \<^verbatim>\<open>File\<close>, of which only the name is read, or a
  string, which has no \<^verbatim>\<open>name\<close> property.
\<close>

datatype form_value = FileValue string | TextValue string

datatype request_body =
    FormData "(string \<times> form_value) list"
  | StringBody string
  | OtherBody

text \<open>
  The options object. Omitting it is the same as passing \<^verbatim>\<open>{}\<close> (the default of the
  parameter): all three fields absent, the body \<open>OtherBody\<close>.
\<close>

record fetch_options =
  opt_method :: "string option"
  opt_headers :: "(string \<times> string) list"
  opt_body :: request_body

text \<open>
  A piece of a response body: \<open>Framed j\<close> is the text
  \<^verbatim>\<open>data: ${JSON.stringify(j)}\n\n\<close>, \<open>Literal s\<close> is the text \<open>s\<close> itself.
\<close>

datatype part = Framed json | Literal string

text \<open>
  A response body: \<open>StreamBody\<close> is written piece by piece and then closed, \<open>TextBody\<close> is
  one string made of the pieces in order, \<open>JsonBody j\<close> is the text
  \<^verbatim>\<open>JSON.stringify(j)\<close>, and \<open>ErrorBody e err\<close> is the JSON object
  \<^verbatim>\<open>{error: e}\<close>, with the further field \<^verbatim>\<open>message: err.message\<close> when \<open>err\<close> is given.
\<close>

datatype body =
    StreamBody "part list"
  | TextBody "part list"
  | JsonBody json
  | ErrorBody string "js_error option"

record response =
  status :: nat
  headers :: "(string \<times> string) list"
  body :: body

definition sse_headers :: "(string \<times> string) list" where
  "sse_headers =
     [(''Content-Type'', ''text/event-stream''),
      (''Cache-Control'', ''no-cache''),
      (''Connection'', ''keep-alive'')]"

definition content_record :: "string \<Rightarrow> json" where
  "content_record text = JObj [(''content'', JStr text)]"

definition done_record :: json where
  "done_record = JObj [(''done'', JBool True)]"

subsection \<open>The interceptor\<close>

definition isApiCall :: "url \<Rightarrow> bool" where
  "isApiCall u =
     ((case u of UrlString s \<Rightarrow> str_includes s ''/api/chat'' | _ \<Rightarrow> False)
      \<or> (case u of UrlObject pathname \<Rightarrow> str_includes pathname ''/api/chat'' | _ \<Rightarrow> False)
      \<or> (case u of UrlString s \<Rightarrow> endsWith s ''/api/chat'' | _ \<Rightarrow> False))"

text \<open>The names pushed for the entries whose key starts with \<^verbatim>\<open>file_\<close>.\<close>

fun form_files :: "(string \<times> form_value) list \<Rightarrow> string option list" where
  "form_files [] = []"
| "form_files ((key, v) # es) =
     (if startsWith key ''file_''
      then (case v of FileValue name \<Rightarrow> Some name | TextValue t \<Rightarrow> None) # form_files es
      else form_files es)"

text \<open>\<^verbatim>\<open>files.join(', ')\<close>: an \<^verbatim>\<open>undefined\<close> element is joined as the empty string.\<close>

definition join_names :: "string option list \<Rightarrow> string" where
  "join_names files = join '', '' (map (\<lambda>f. case f of None \<Rightarrow> [] | Some n \<Rightarrow> n) files)"

definition fileResponse_text :: "string option list \<Rightarrow> string" where
  "fileResponse_text files =
     ''I can see you've uploaded: **'' @ join_names files @ ''**\<newline>\<newline>'' @
     ''In a real implementation, I would analyze these files. '' @
     ''For this demo, I'm just acknowledging them!''"

definition choices_body :: "string \<Rightarrow> json" where
  "choices_body text =
     JObj [(''choices'', JArr [JObj [(''message'', JObj [(''content'', JStr text)])]])]"

text \<open>The branch for a \<^verbatim>\<open>FormData\<close> body.\<close>

definition formdata_response :: "(nat \<Rightarrow> nat) \<Rightarrow> (string \<times> form_value) list \<Rightarrow> response js" where
  "formdata_response draw entries =
     (let files = form_files entries;
          fileResponse =
            (if length files > 0 then Some (fileResponse_text files)
             else generateResponse draw ''file upload'')
      in case fileResponse of
           None \<Rightarrow> Unmodelled
         | Some text \<Rightarrow>
             Return \<lparr>status = 200,
                     headers = [(''Content-Type'', ''application/json'')],
                     body = JsonBody (choices_body text)\<rparr>)"

text \<open>
  The values of \<^verbatim>\<open>content\<close> at the ticks of the timer of the streaming branch, one per
  element of \<^verbatim>\<open>response.split(' ')\<close>.
\<close>

definition mock_contents :: "string \<Rightarrow> string list" where
  "mock_contents response =
     (let chunks = split_space response
      in map (\<lambda>i. if i = 0 then chunks ! i else '' '' @ chunks ! i) [0..<length chunks])"

text \<open>The pieces the timer enqueues: the framed contents, then the completion text.\<close>

definition mock_stream :: "string \<Rightarrow> part list" where
  "mock_stream response =
     map (\<lambda>content. Framed (content_record content)) (mock_contents response)
     @ [Literal ''data: {\"done\": true}\<newline>\<newline>'']"

text \<open>The single string of the other branch.\<close>

definition mock_streamData :: "string \<Rightarrow> part list" where
  "mock_streamData response = [Framed (content_record response), Framed done_record]"

text \<open>
  \<^verbatim>\<open>JSON.parse\<close> is an argument \<open>parse\<close> of the model: \<open>parse s = None\<close> when it throws on
  \<open>s\<close>. The pair returned is \<^verbatim>\<open>(data, messages)\<close> after the inner \<^verbatim>\<open>try\<close>.
\<close>

definition parse_body :: "(string \<Rightarrow> json option) \<Rightarrow> request_body \<Rightarrow> json \<times> json" where
  "parse_body parse b =
     (case b of
        StringBody s \<Rightarrow>
          (case parse s of
             None \<Rightarrow> (JObj [], JArr [])
           | Some d \<Rightarrow>
               (case get_prop d ''messages'' of
                  Return m \<Rightarrow> (d, if truthy m then the m else JArr [])
                | _ \<Rightarrow> (d, JArr [])))
      | _ \<Rightarrow> (JObj [], JArr []))"

text \<open>\<^verbatim>\<open>lastMessage ? lastMessage.content : dflt\<close>.\<close>

definition message_content :: "json option \<Rightarrow> json option \<Rightarrow> json option js" where
  "message_content lastMessage dflt =
     (if truthy lastMessage then get_prop (the lastMessage) ''content'' else Return dflt)"

text \<open>Calling \<^verbatim>\<open>toLowerCase\<close> on anything but a string throws.\<close>

definition as_string :: "json option \<Rightarrow> string js" where
  "as_string v = (case v of Some (JStr s) \<Rightarrow> Return s | _ \<Rightarrow> Throw TypeError)"

text \<open>The variable \<^verbatim>\<open>userMessage\<close> of the interceptor.\<close>

definition mock_userMessage :: "json \<Rightarrow> json option js" where
  "mock_userMessage messages =
     (case last_element messages of
        Throw e \<Rightarrow> Throw e
      | Unmodelled \<Rightarrow> Unmodelled
      | Return lastMessage \<Rightarrow> message_content lastMessage (Some (JStr ''Hello'')))"

text \<open>The variable \<^verbatim>\<open>response\<close> of the interceptor, the reply text.\<close>

definition mock_select :: "(nat \<Rightarrow> nat) \<Rightarrow> json \<Rightarrow> string js" where
  "mock_select draw messages =
     (case mock_userMessage messages of
        Throw e \<Rightarrow> Throw e
      | Unmodelled \<Rightarrow> Unmodelled
      | Return userMessage \<Rightarrow>
          (case as_string userMessage of
             Throw e \<Rightarrow> Throw e
           | Unmodelled \<Rightarrow> Unmodelled
           | Return message \<Rightarrow>
               (case generateResponse draw message of
                  None \<Rightarrow> Unmodelled
                | Some response \<Rightarrow> Return response)))"

text \<open>The body of the \<^verbatim>\<open>try\<close> block of the interceptor.\<close>

definition mock_chat :: "(string \<Rightarrow> json option) \<Rightarrow> (nat \<Rightarrow> nat) \<Rightarrow> request_body \<Rightarrow> response js" where
  "mock_chat parse draw b =
     (case b of
        FormData entries \<Rightarrow> formdata_response draw entries
      | _ \<Rightarrow>
          (case mock_select draw (snd (parse_body parse b)) of
             Throw e \<Rightarrow> Throw e
           | Unmodelled \<Rightarrow> Unmodelled
           | Return response \<Rightarrow>
               (case get_prop (fst (parse_body parse b)) ''stream'' of
                  Throw e \<Rightarrow> Throw e
                | Unmodelled \<Rightarrow> Unmodelled
                | Return stream \<Rightarrow>
                    if truthy stream
                    then Return \<lparr>status = 200, headers = sse_headers,
                                 body = StreamBody (mock_stream response)\<rparr>
                    else Return \<lparr>status = 200, headers = sse_headers,
                                 body = TextBody (mock_streamData response)\<rparr>)))"

text \<open>
  The result of the wrapper: a response made by the wrapper, the result of the original
  fetch, or a request outside the model.
\<close>

datatype 'r fetched = Mocked response | Original 'r | Outside

definition window_fetch ::
  "(url \<Rightarrow> fetch_options \<Rightarrow> 'r) \<Rightarrow> (string \<Rightarrow> json option) \<Rightarrow> (nat \<Rightarrow> nat)
     \<Rightarrow> url \<Rightarrow> fetch_options \<Rightarrow> 'r fetched" where
  "window_fetch originalFetch parse draw u options =
     (if isApiCall u
      then (case mock_chat parse draw (opt_body options) of
              Return r \<Rightarrow> Mocked r
            | Throw e \<Rightarrow>
                Mocked \<lparr>status = 500,
                        headers = [(''Content-Type'', ''application/json'')],
                        body = ErrorBody ''Demo API simulation error'' None\<rparr>
            | Unmodelled \<Rightarrow> Outside)
      else Original (originalFetch u options))"

section \<open>The chat route of backend-example.js\<close>

subsection \<open>Uploads\<close>

text \<open>An uploaded file as the upload middleware presents it.\<close>

record upfile =
  originalname :: string
  mimetype :: string
  size :: nat

definition allowedTypes :: "string list" where
  "allowedTypes =
     [''image/jpeg'', ''image/png'', ''image/gif'', ''image/webp'',
      ''application/pdf'', ''text/plain'',
      ''application/msword'',
      ''application/vnd.openxmlformats-officedocument.wordprocessingml.document'']"

text \<open>
  \<^verbatim>\<open>fileFilter\<close>: the callback receives \<^verbatim>\<open>(null, true)\<close>, here \<open>Return True\<close>, or an
  \<^verbatim>\<open>Error\<close>, here \<open>Throw\<close>.
\<close>

definition fileFilter :: "upfile \<Rightarrow> bool js" where
  "fileFilter file =
     (if mimetype file \<in> set allowedTypes then Return True
      else Throw (Error (''File type '' @ mimetype file @ '' not allowed'')))"

definition limit_fileSize :: nat where
  "limit_fileSize = 10 * 1024 * 1024"

definition limit_files :: nat where
  "limit_files = 5"

text \<open>
  \<^verbatim>\<open>upload.any()\<close> is the upload library's: it takes the file parts of a multipart
  request in order, \<open>n\<close> counting the files seen so far. A part beyond the file limit, a
  part the filter rejects and a part larger than the size limit each end the request with
  an error, which goes to the error-handling middleware; the route handler does not run.
\<close>

fun upload_any :: "nat \<Rightarrow> upfile list \<Rightarrow> upfile list js" where
  "upload_any n [] = Return []"
| "upload_any n (file # rest) =
     (if n \<ge> limit_files then Throw (MulterError ''LIMIT_FILE_COUNT'')
      else case fileFilter file of
             Throw e \<Rightarrow> Throw e
           | Unmodelled \<Rightarrow> Unmodelled
           | Return accept \<Rightarrow>
               if size file > limit_fileSize then Throw (MulterError ''LIMIT_FILE_SIZE'')
               else (case upload_any (n + 1) rest of
                       Return files \<Rightarrow> Return (if accept then file # files else files)
                     | Throw e \<Rightarrow> Throw e
                     | Unmodelled \<Rightarrow> Unmodelled))"

text \<open>
  The error-handling middleware. \<open>headers\<close> lists the headers the source sets itself;
  \<^verbatim>\<open>res.json\<close> sets none by name.
\<close>

definition error_middleware :: "js_error \<Rightarrow> response" where
  "error_middleware err =
     (case err of
        MulterError code \<Rightarrow>
          if code = ''LIMIT_FILE_SIZE''
          then \<lparr>status = 400, headers = [],
                body = JsonBody (JObj [(''error'', JStr ''File too large''),
                                       (''message'', JStr ''Maximum file size is 10MB'')])\<rparr>
          else if code = ''LIMIT_FILE_COUNT''
          then \<lparr>status = 400, headers = [],
                body = JsonBody (JObj [(''error'', JStr ''Too many files''),
                                       (''message'', JStr ''Maximum 5 files allowed'')])\<rparr>
          else \<lparr>status = 500, headers = [], body = ErrorBody ''Server error'' (Some err)\<rparr>
      | _ \<Rightarrow> \<lparr>status = 500, headers = [], body = ErrorBody ''Server error'' (Some err)\<rparr>)"

subsection \<open>The reply corpus\<close>

definition backend_mockResponses :: "string list" where
  "backend_mockResponses =
    [''Hello! I'm a demo AI assistant. How can I help you today?'',
     ''That's an interesting question! Let me think about that for a moment.'',
     ''I understand what you're asking. Here's what I think about that topic.'',
     ''Thanks for sharing that with me. I appreciate your input.'',
     ''I'm here to help with any questions you might have.'',
     ''That's a great point! Let me expand on that idea.'',
     ''I can see why that would be important to you.'']"

definition getRandomResponse :: "(nat \<Rightarrow> nat) \<Rightarrow> string option" where
  "getRandomResponse draw = pick draw backend_mockResponses"

definition codeReply :: string where
  "codeReply =
     ''Here's a code example:\<newline>\<newline>```javascript\<newline>function '' @
     ''greet(name) {\<newline>    return `Hello, ${name}!`;\<newline>}\<newline>'' @
     ''\<newline>console.log(greet(\"World\"));\<newline>```\<newline>\<newline>'' @
     ''This function demonstrates basic JavaScript syntax with template literals.''"

definition markdownReply :: string where
  "markdownReply =
     ''Here's some **markdown** formatting:\<newline>\<newline># Header 1\<newline>'' @
     ''## Header 2\<newline>\<newline>- List item 1\<newline>- List item 2\<newline>'' @
     ''\<newline>*Italic text* and **bold text**\<newline>\<newline>> This is '' @
     ''a blockquote\<newline>\<newline>And here's a [link](https://example.com)!''"

definition fileReply :: "upfile list \<Rightarrow> string" where
  "fileReply files =
     ''I can see you've uploaded '' @ digits (length files) @ '' file(s): '' @
     join '', '' (map originalname files) @
     ''. I'm a demo bot so I can't actually process files, but in a real '' @
     ''implementation, I would analyze them for you!''"

subsection \<open>The route handler\<close>

text \<open>
  The request as the handler sees it: \<^verbatim>\<open>req.body\<close>, an object left by the body parsers,
  and \<^verbatim>\<open>req.files\<close>, \<^verbatim>\<open>undefined\<close> unless the request was multipart.
\<close>

record chat_request =
  req_body :: json
  req_files :: "upfile list option"

definition backend_messages :: "(string \<Rightarrow> json option) \<Rightarrow> json \<Rightarrow> json js" where
  "backend_messages parse b =
     (case get_prop b ''messages'' of
        Throw e \<Rightarrow> Throw e
      | Unmodelled \<Rightarrow> Unmodelled
      | Return m \<Rightarrow>
          if truthy m
          then (case the m of
                  JStr s \<Rightarrow> (case parse s of None \<Rightarrow> Throw SyntaxError | Some v \<Rightarrow> Return v)
                | v \<Rightarrow> Return v)
          else Return (JArr []))"

definition isStreaming :: "json option \<Rightarrow> bool" where
  "isStreaming stream = (stream = Some (JStr ''true'') \<or> stream = Some (JBool True))"

text \<open>\<^verbatim>\<open>req.files?.length > 0\<close>.\<close>

definition has_files :: "upfile list option \<Rightarrow> bool" where
  "has_files files = (case files of None \<Rightarrow> False | Some fs \<Rightarrow> length fs > 0)"

text \<open>The choice of the reply text, from the last message and the files.\<close>

definition backend_response :: "(nat \<Rightarrow> nat) \<Rightarrow> string \<Rightarrow> upfile list option \<Rightarrow> string option" where
  "backend_response draw userMessage files =
     (if str_includes (toLowerCase userMessage) ''file'' \<and> has_files files
      then Some (fileReply (the files))
      else if str_includes (toLowerCase userMessage) ''code''
      then Some codeReply
      else if str_includes (toLowerCase userMessage) ''markdown''
      then Some markdownReply
      else getRandomResponse draw)"

text \<open>The contents the streaming branch writes, one per word.\<close>

definition backend_contents :: "string \<Rightarrow> string list" where
  "backend_contents response =
     (let words = split_space response
      in map (\<lambda>i. words ! i @ (if i < length words - 1 then '' '' else []))
             [0..<length words])"

text \<open>The pieces written: the framed contents, then the completion record.\<close>

definition backend_stream :: "string \<Rightarrow> part list" where
  "backend_stream response =
     map (\<lambda>content. Framed (content_record content)) (backend_contents response)
     @ [Framed done_record]"

definition backend_stream_headers :: "(string \<times> string) list" where
  "backend_stream_headers =
     [(''Content-Type'', ''text/event-stream''),
      (''Cache-Control'', ''no-cache''),
      (''Connection'', ''keep-alive''),
      (''Access-Control-Allow-Origin'', ''*'')]"

text \<open>The object of the other branch; \<open>now\<close> is \<^verbatim>\<open>new Date().toISOString()\<close>.\<close>

definition backend_json :: "string \<Rightarrow> string \<Rightarrow> json" where
  "backend_json now response =
     JObj [(''content'', JStr response), (''done'', JBool True), (''timestamp'', JStr now)]"

text \<open>The variable \<^verbatim>\<open>userMessage\<close> of the handler.\<close>

definition backend_userMessage :: "json \<Rightarrow> json option js" where
  "backend_userMessage messages =
     (case last_element messages of
        Throw e \<Rightarrow> Throw e
      | Unmodelled \<Rightarrow> Unmodelled
      | Return lastMessage \<Rightarrow> message_content lastMessage (Some (JStr [])))"

text \<open>The variable \<^verbatim>\<open>response\<close> of the handler, the reply text.\<close>

definition chat_select :: "(nat \<Rightarrow> nat) \<Rightarrow> json \<Rightarrow> upfile list option \<Rightarrow> string js" where
  "chat_select draw messages files =
     (case backend_userMessage messages of
        Throw e \<Rightarrow> Throw e
      | Unmodelled \<Rightarrow> Unmodelled
      | Return content \<Rightarrow>
          (case as_string content of
             Throw e \<Rightarrow> Throw e
           | Unmodelled \<Rightarrow> Unmodelled
           | Return userMessage \<Rightarrow>
               (case backend_response draw userMessage files of
                  None \<Rightarrow> Unmodelled
                | Some response \<Rightarrow> Return response)))"

text \<open>The body of the \<^verbatim>\<open>try\<close> block of the handler.\<close>

definition chat_try ::
  "(string \<Rightarrow> json option) \<Rightarrow> (nat \<Rightarrow> nat) \<Rightarrow> string \<Rightarrow> chat_request \<Rightarrow> response js" where
  "chat_try parse draw now req =
     (case backend_messages parse (req_body req) of
        Throw e \<Rightarrow> Throw e
      | Unmodelled \<Rightarrow> Unmodelled
      | Return messages \<Rightarrow>
     (case get_prop (req_body req) ''stream'' of
        Throw e \<Rightarrow> Throw e
      | Unmodelled \<Rightarrow> Unmodelled
      | Return stream \<Rightarrow>
     (case chat_select draw messages (req_files req) of
        Throw e \<Rightarrow> Throw e
      | Unmodelled \<Rightarrow> Unmodelled
      | Return response \<Rightarrow>
          if isStreaming stream
          then Return \<lparr>status = 200, headers = backend_stream_headers,
                       body = StreamBody (backend_stream response)\<rparr>
          else Return \<lparr>status = 200, headers = [],
                       body = JsonBody (backend_json now response)\<rparr>)))"

text \<open>The handler with its \<^verbatim>\<open>catch\<close>; \<open>None\<close> is a request outside the model.\<close>

definition chat_handler ::
  "(string \<Rightarrow> json option) \<Rightarrow> (nat \<Rightarrow> nat) \<Rightarrow> string \<Rightarrow> chat_request \<Rightarrow> response option" where
  "chat_handler parse draw now req =
     (case chat_try parse draw now req of
        Return r \<Rightarrow> Some r
      | Throw e \<Rightarrow>
          Some \<lparr>status = 500, headers = [],
                body = ErrorBody ''Internal server error'' (Some e)\<rparr>
      | Unmodelled \<Rightarrow> None)"

text \<open>
  The route \<^verbatim>\<open>POST /api/chat\<close>: the upload middleware, then the handler. \<open>parts\<close> is the
  list of file parts of a multipart request, \<open>None\<close> for any other request.
\<close>

definition post_api_chat ::
  "(string \<Rightarrow> json option) \<Rightarrow> (nat \<Rightarrow> nat) \<Rightarrow> string \<Rightarrow> json \<Rightarrow> upfile list option
     \<Rightarrow> response option" where
  "post_api_chat parse draw now b parts =
     (case parts of
        None \<Rightarrow> chat_handler parse draw now \<lparr>req_body = b, req_files = None\<rparr>
      | Some ps \<Rightarrow>
          (case upload_any 0 ps of
             Throw e \<Rightarrow> Some (error_middleware e)
           | Unmodelled \<Rightarrow> None
           | Return files \<Rightarrow>
               chat_handler parse draw now \<lparr>req_body = b, req_files = Some files\<rparr>))"



section \<open>The specification's vocabulary and sample requests\<close>

subsection \<open>Splitting on whitespace, as the specification words it\<close>

text \<open>
  The specification speaks of splitting the reply on whitespace into word tokens. The
  definitions of this subsection follow those words, not the source, and serve only to
  compare the two.
\<close>

definition is_space :: "char \<Rightarrow> bool" where
  "is_space c = (c \<in> set [CHR '' '', CHR 0x09, CHR 0x0A, CHR 0x0B, CHR 0x0C, CHR 0x0D])"

fun words_from :: "string \<Rightarrow> string \<Rightarrow> string list" where
  "words_from cur [] = (if cur = [] then [] else [cur])"
| "words_from cur (c # cs) =
     (if is_space c then (if cur = [] then words_from [] cs else cur # words_from [] cs)
      else words_from (cur @ [c]) cs)"

definition spec_words :: "string \<Rightarrow> string list" where
  "spec_words replyText = words_from [] replyText"

text \<open>
  One fragment per token, each carrying the token plus a trailing space except the final
  token of the reply.
\<close>

definition spec_fragments :: "string \<Rightarrow> string list" where
  "spec_fragments replyText =
     (let tokens = spec_words replyText
      in if tokens = [] then []
         else map (\<lambda>w. w @ '' '') (butlast tokens) @ [last tokens])"

subsection \<open>Sample requests\<close>

text \<open>
  \<open>is_FormData b\<close> is \<^verbatim>\<open>body instanceof FormData\<close>, for stating which branch a request
  takes.
\<close>

definition is_FormData :: "request_body \<Rightarrow> bool" where
  "is_FormData b = (case b of FormData entries \<Rightarrow> True | _ \<Rightarrow> False)"

definition is_streamed :: "response \<Rightarrow> bool" where
  "is_streamed r = (case body r of StreamBody ps \<Rightarrow> True | _ \<Rightarrow> False)"

text \<open>
  Whether the text \<^verbatim>\<open>/api/chat\<close> occurs in the URL: anywhere in a string, or in the
  pathname of a \<^verbatim>\<open>URL\<close> object.
\<close>

definition mentions_chat :: "url \<Rightarrow> bool" where
  "mentions_chat u =
     (case u of
        UrlString s \<Rightarrow> str_includes s ''/api/chat''
      | UrlObject pathname \<Rightarrow> str_includes pathname ''/api/chat''
      | UrlOther \<Rightarrow> False)"

text \<open>
  Sample draws. For the random number 0 every index is 0. For 0.6 the indices in
  floating point for the lengths 2, 3, 5 and 7 are 1, 1, 3 and 4 (the product 0.6 * 5
  rounds to 3); the table has no row for another length.
\<close>

definition draw_zero :: "nat \<Rightarrow> nat" where
  "draw_zero n = 0"

definition draw_six_tenths :: "nat \<Rightarrow> nat" where
  "draw_six_tenths n =
     (if n = 2 then 1 else if n = 3 then 1 else if n = 5 then 3 else if n = 7 then 4 else 0)"

definition sample_now :: string where
  "sample_now = ''2024-01-01T00:00:00.000Z''"

definition hello_message :: json where
  "hello_message = JObj [(''role'', JStr ''user''), (''content'', JStr ''Hello'')]"

definition code_message :: json where
  "code_message = JObj [(''role'', JStr ''user''), (''content'', JStr ''show me some code'')]"

definition body_hello_stream :: string where
  "body_hello_stream =
     ''{\"messages\":[{\"role\":\"user\",\"content\":\"Hello\"}],\"stream\":true}''"

definition body_code_plain :: string where
  "body_code_plain =
     ''{\"messages\":[{\"role\":\"user\",\"content\":\"show me some code\"}],\"stream\":false}''"

definition body_stream_text :: string where
  "body_stream_text = ''{\"messages\":[],\"stream\":\"false\"}''"

definition body_no_messages :: string where
  "body_no_messages = ''{\"stream\":false}''"

text \<open>
  \<^verbatim>\<open>JSON.parse\<close> on the sample texts: the text \<^verbatim>\<open>{\<close> is not JSON and is rejected, the
  others parse to the values shown. The table has no row for any other text.
\<close>

definition parse_sample :: "string \<Rightarrow> json option" where
  "parse_sample s =
     (if s = ''{'' then None
      else if s = body_hello_stream
      then Some (JObj [(''messages'', JArr [hello_message]), (''stream'', JBool True)])
      else if s = body_code_plain
      then Some (JObj [(''messages'', JArr [code_message]), (''stream'', JBool False)])
      else if s = body_stream_text
      then Some (JObj [(''messages'', JArr []), (''stream'', JStr ''false'')])
      else if s = body_no_messages
      then Some (JObj [(''stream'', JBool False)])
      else if s = ''[]'' then Some (JArr [])
      else None)"

text \<open>The requests of the same content as the handler of the route receives them.\<close>

definition req_code_stream :: chat_request where
  "req_code_stream =
     \<lparr>req_body = JObj [(''messages'', JArr [code_message]), (''stream'', JBool True)],
      req_files = None\<rparr>"

definition req_code_plain :: chat_request where
  "req_code_plain =
     \<lparr>req_body = JObj [(''messages'', JArr [code_message]), (''stream'', JBool False)],
      req_files = None\<rparr>"

section \<open>Splitting and joining\<close>

lemma split_space_nonempty: "split_space s \<noteq> []"
  by (induction s) (auto split: list.splits)

lemma join_Cons: "ws \<noteq> [] \<Longrightarrow> join sep (w # ws) = w @ sep @ join sep ws"
  by (cases ws) auto

lemma join_head_append: "join sep ((p @ w) # ws) = p @ join sep (w # ws)"
  by (cases ws) auto

lemma join_split_space: "join '' '' (split_space s) = s"
proof (induction s)
  case Nil
  show ?case by simp
next
  case (Cons c cs)
  show ?case
  proof (cases "c = CHR '' ''")
    case True
    then show ?thesis using Cons by (simp add: join_Cons split_space_nonempty)
  next
    case False
    obtain w ws where sp: "split_space cs = w # ws"
      using split_space_nonempty [of cs] by (cases "split_space cs") auto
    have "join '' '' ((c # w) # ws) = c # join '' '' (w # ws)"
      using join_head_append [of "'' ''" "[c]" w ws] by simp
    with False sp Cons show ?thesis by simp
  qed
qed

lemma lead_contents_eq:
  assumes "ws \<noteq> []"
  shows "map (\<lambda>i. if i = 0 then ws ! i else sep @ ws ! i) [0..<length ws]
     = hd ws # map (\<lambda>w. sep @ w) (tl ws)"
proof -
  obtain w rest where ws: "ws = w # rest" using assms by (cases ws) auto
  have "map (\<lambda>i. sep @ rest ! i) [0..<length rest] = map (\<lambda>w. sep @ w) rest"
    by (rule nth_equalityI) simp_all
  then show ?thesis unfolding ws by (simp add: map_upt_Suc del: upt_Suc)
qed

lemma trail_contents_eq:
  assumes "ws \<noteq> []"
  shows "map (\<lambda>i. ws ! i @ (if i < length ws - 1 then sep else [])) [0..<length ws]
     = map (\<lambda>w. w @ sep) (butlast ws) @ [last ws]"
proof (rule nth_equalityI)
  show "length (map (\<lambda>i. ws ! i @ (if i < length ws - 1 then sep else [])) [0..<length ws])
      = length (map (\<lambda>w. w @ sep) (butlast ws) @ [last ws])"
    using assms by simp
next
  fix i
  assume "i < length (map (\<lambda>i. ws ! i @ (if i < length ws - 1 then sep else [])) [0..<length ws])"
  then have i: "i < length ws" by simp
  show "map (\<lambda>i. ws ! i @ (if i < length ws - 1 then sep else [])) [0..<length ws] ! i
      = (map (\<lambda>w. w @ sep) (butlast ws) @ [last ws]) ! i"
  proof (cases "i < length ws - 1")
    case True
    then show ?thesis using i by (simp add: nth_append nth_butlast)
  next
    case False
    then have "i = length ws - 1" using i by simp
    then show ?thesis using i assms by (simp add: nth_append last_conv_nth)
  qed
qed

lemma concat_lead: "concat (w # map (\<lambda>x. sep @ x) ws) = join sep (w # ws)"
proof (induction ws arbitrary: w)
  case Nil
  show ?case by simp
next
  case (Cons a ws)
  have "concat (w # map (\<lambda>x. sep @ x) (a # ws)) = w @ sep @ concat (a # map (\<lambda>x. sep @ x) ws)"
    by simp
  also have "\<dots> = w @ sep @ join sep (a # ws)" using Cons by simp
  finally show ?case by simp
qed

lemma concat_trail:
  "ws \<noteq> [] \<Longrightarrow> concat (map (\<lambda>w. w @ sep) (butlast ws) @ [last ws]) = join sep ws"
proof (induction ws)
  case Nil
  then show ?case by simp
next
  case (Cons a ws)
  show ?case
  proof (cases "ws = []")
    case True
    then show ?thesis by simp
  next
    case False
    with Cons show ?thesis by (simp add: join_Cons)
  qed
qed

lemma mock_contents_shape:
  "mock_contents response =
     hd (split_space response) # map (\<lambda>w. '' '' @ w) (tl (split_space response))"
  unfolding mock_contents_def Let_def
  by (rule lead_contents_eq) (rule split_space_nonempty)

lemma backend_contents_shape:
  "backend_contents response =
     map (\<lambda>w. w @ '' '') (butlast (split_space response)) @ [last (split_space response)]"
  unfolding backend_contents_def Let_def
  by (rule trail_contents_eq) (rule split_space_nonempty)

lemma length_mock_contents: "length (mock_contents response) = length (split_space response)"
  by (simp add: mock_contents_def Let_def)

lemma length_backend_contents:
  "length (backend_contents response) = length (split_space response)"
  by (simp add: backend_contents_def Let_def)

lemma concat_mock_contents: "concat (mock_contents response) = response"
proof -
  have "concat (mock_contents response)
      = join '' '' (hd (split_space response) # tl (split_space response))"
    unfolding mock_contents_shape by (rule concat_lead)
  also have "\<dots> = join '' '' (split_space response)"
    using split_space_nonempty [of response] by simp
  finally show ?thesis by (simp add: join_split_space)
qed

lemma concat_backend_contents: "concat (backend_contents response) = response"
proof -
  have "concat (backend_contents response) = join '' '' (split_space response)"
    unfolding backend_contents_shape
    by (rule concat_trail) (rule split_space_nonempty)
  then show ?thesis by (simp add: join_split_space)
qed

section \<open>The branches of the two handlers\<close>

lemma mock_chat_not_form:
  assumes "\<not> is_FormData b"
    and "mock_select draw (snd (parse_body parse b)) = Return response"
    and "get_prop (fst (parse_body parse b)) ''stream'' = Return stream"
  shows "mock_chat parse draw b =
     Return (if truthy stream
             then \<lparr>status = 200, headers = sse_headers,
                   body = StreamBody (mock_stream response)\<rparr>
             else \<lparr>status = 200, headers = sse_headers,
                   body = TextBody (mock_streamData response)\<rparr>)"
  using assms by (cases b) (simp_all add: mock_chat_def is_FormData_def)

lemma chat_try_selected:
  assumes "backend_messages parse (req_body req) = Return messages"
    and "get_prop (req_body req) ''stream'' = Return stream"
    and "chat_select draw messages (req_files req) = Return response"
  shows "chat_try parse draw now req =
     Return (if isStreaming stream
             then \<lparr>status = 200, headers = backend_stream_headers,
                   body = StreamBody (backend_stream response)\<rparr>
             else \<lparr>status = 200, headers = [],
                   body = JsonBody (backend_json now response)\<rparr>)"
  using assms by (simp add: chat_try_def)

text \<open>The definitions unfolded to run the handlers on the sample requests.\<close>

lemmas eval_defs =
  lower_char_def pick_def Let_def generateResponse_def
  draw_zero_def draw_six_tenths_def
  mock_select_def mock_userMessage_def message_content_def as_string_def
  parse_body_def parse_sample_def is_FormData_def
  body_hello_stream_def body_code_plain_def body_stream_text_def body_no_messages_def
  hello_message_def code_message_def
  chat_select_def backend_userMessage_def backend_response_def backend_messages_def
  isStreaming_def has_files_def getRandomResponse_def
  req_code_stream_def req_code_plain_def

section \<open>Streaming: the number of records and the round trip\<close>

text \<open>
  C1 (as amended). For a request answered in streaming mode whose selected reply text is
  \<open>response\<close>, and \<open>k\<close> the number of pieces \<^verbatim>\<open>response.split(' ')\<close> gives (the reply cut
  at every single space, not at whitespace in general), the wire sequence is exactly
  \<open>k\<close> content records followed by the terminal record, and the \<open>k\<close> content texts
  concatenated in order are the reply text. This holds for the interceptor (a body that
  is not form data, with a truthy \<^verbatim>\<open>stream\<close>) and for the route handler.
\<close>

theorem streaming_round_trip:
  assumes "\<not> is_FormData b"
    and "mock_select draw (snd (parse_body parse b)) = Return response"
    and "get_prop (fst (parse_body parse b)) ''stream'' = Return stream"
    and "truthy stream"
    and "backend_messages parse' (req_body req) = Return messages"
    and "get_prop (req_body req) ''stream'' = Return stream'"
    and "isStreaming stream'"
    and "chat_select draw' messages (req_files req) = Return response'"
  shows "mock_chat parse draw b =
           Return \<lparr>status = 200, headers = sse_headers,
                   body = StreamBody
                     (map (\<lambda>t. Framed (content_record t)) (mock_contents response)
                      @ [Literal ''data: {\"done\": true}\<newline>\<newline>''])\<rparr>
       \<and> length (mock_contents response) = length (split_space response)
       \<and> concat (mock_contents response) = response
       \<and> chat_try parse' draw' now req =
           Return \<lparr>status = 200, headers = backend_stream_headers,
                   body = StreamBody
                     (map (\<lambda>t. Framed (content_record t)) (backend_contents response')
                      @ [Framed done_record])\<rparr>
       \<and> length (backend_contents response') = length (split_space response')
       \<and> concat (backend_contents response') = response'"
proof -
  have "mock_chat parse draw b =
      Return \<lparr>status = 200, headers = sse_headers, body = StreamBody (mock_stream response)\<rparr>"
    using mock_chat_not_form [OF assms(1-3)] assms(4) by simp
  moreover have "chat_try parse' draw' now req =
      Return \<lparr>status = 200, headers = backend_stream_headers,
              body = StreamBody (backend_stream response')\<rparr>"
    using chat_try_selected [OF assms(5,6,8)] assms(7) by simp
  ultimately show ?thesis
    by (simp add: mock_stream_def backend_stream_def length_mock_contents
        length_backend_contents concat_mock_contents concat_backend_contents)
qed

theorem streaming_round_trip_witness:
  "\<not> is_FormData (StringBody body_hello_stream)
   \<and> mock_select draw_zero (snd (parse_body parse_sample (StringBody body_hello_stream)))
       = Return (mockResponses ! 0)
   \<and> get_prop (fst (parse_body parse_sample (StringBody body_hello_stream))) ''stream''
       = Return (Some (JBool True))
   \<and> truthy (Some (JBool True))
   \<and> backend_messages parse_sample (req_body req_code_stream) = Return (JArr [code_message])
   \<and> get_prop (req_body req_code_stream) ''stream'' = Return (Some (JBool True))
   \<and> isStreaming (Some (JBool True))
   \<and> chat_select draw_zero (JArr [code_message]) (req_files req_code_stream) = Return codeReply
   \<and> mock_chat parse_sample draw_zero (StringBody body_hello_stream) =
         Return \<lparr>status = 200, headers = sse_headers,
                 body = StreamBody
                   (map (\<lambda>t. Framed (content_record t)) (mock_contents (mockResponses ! 0))
                    @ [Literal ''data: {\"done\": true}\<newline>\<newline>''])\<rparr>
   \<and> length (mock_contents (mockResponses ! 0)) = length (split_space (mockResponses ! 0))
   \<and> concat (mock_contents (mockResponses ! 0)) = mockResponses ! 0
   \<and> chat_try parse_sample draw_zero sample_now req_code_stream =
         Return \<lparr>status = 200, headers = backend_stream_headers,
                 body = StreamBody
                   (map (\<lambda>t. Framed (content_record t)) (backend_contents codeReply)
                    @ [Framed done_record])\<rparr>
   \<and> length (backend_contents codeReply) = length (split_space codeReply)
   \<and> concat (backend_contents codeReply) = codeReply"
proof -
  have h1: "\<not> is_FormData (StringBody body_hello_stream)"
    by (simp add: is_FormData_def)
  have h2: "mock_select draw_zero (snd (parse_body parse_sample (StringBody body_hello_stream)))
      = Return (mockResponses ! 0)"
    by (simp add: eval_defs mockResponses_def)
  have h3: "get_prop (fst (parse_body parse_sample (StringBody body_hello_stream))) ''stream''
      = Return (Some (JBool True))"
    by (simp add: eval_defs)
  have h4: "truthy (Some (JBool True))" by simp
  have h5: "backend_messages parse_sample (req_body req_code_stream)
      = Return (JArr [code_message])"
    by (simp add: eval_defs)
  have h6: "get_prop (req_body req_code_stream) ''stream'' = Return (Some (JBool True))"
    by (simp add: req_code_stream_def)
  have h7: "isStreaming (Some (JBool True))" by (simp add: isStreaming_def)
  have h8: "chat_select draw_zero (JArr [code_message]) (req_files req_code_stream) = Return codeReply"
    by (simp add: eval_defs)
  from streaming_round_trip [OF h1 h2 h3 h4 h5 h6 h7 h8, where now = sample_now]
    h1 h2 h3 h4 h5 h6 h7 h8
  show ?thesis by (elim conjE) (intro conjI; assumption)
qed

text \<open>
  C1 as stated fails: the request \<^verbatim>\<open>{messages: [{role: "user", content: "show me some
  code"}], stream: true}\<close> sent to the route is answered with the fixed code example, which
  has 23 whitespace-separated words but is written as 20 content records and the terminal
  record, 21 records in all: its line breaks do not separate pieces.
\<close>

theorem whitespace_count_counterexample:
  "chat_handler parse_sample draw_zero sample_now req_code_stream =
     Some \<lparr>status = 200, headers = backend_stream_headers,
           body = StreamBody (backend_stream codeReply)\<rparr>
   \<and> length (backend_stream codeReply) = 21
   \<and> length (spec_words codeReply) + 1 = 24"
proof -
  have "chat_try parse_sample draw_zero sample_now req_code_stream =
      Return \<lparr>status = 200, headers = backend_stream_headers,
              body = StreamBody (backend_stream codeReply)\<rparr>"
    by (simp add: chat_try_def eval_defs)
  then have "chat_handler parse_sample draw_zero sample_now req_code_stream =
     Some \<lparr>status = 200, headers = backend_stream_headers,
           body = StreamBody (backend_stream codeReply)\<rparr>"
    by (simp add: chat_handler_def)
  moreover have "length (backend_stream codeReply) = 21"
    by (simp add: backend_stream_def length_backend_contents codeReply_def)
  moreover have "length (spec_words codeReply) + 1 = 24"
    by (simp add: spec_words_def is_space_def codeReply_def)
  ultimately show ?thesis by simp
qed

section \<open>Non-streaming replies\<close>

text \<open>
  C2 (as amended). For a request with streaming off, the interceptor (a body that is not
  form data, with a falsy \<^verbatim>\<open>stream\<close>) answers with the event-record framing and exactly
  two records: one content record holding the full selected reply, then the terminal
  record. The route handler does not: it answers with the single JSON object
  \<^verbatim>\<open>{content, done: true, timestamp}\<close>, which is not framed as events.
\<close>

theorem non_streaming_reply:
  assumes "\<not> is_FormData b"
    and "mock_select draw (snd (parse_body parse b)) = Return response"
    and "get_prop (fst (parse_body parse b)) ''stream'' = Return stream"
    and "\<not> truthy stream"
    and "backend_messages parse' (req_body req) = Return messages"
    and "get_prop (req_body req) ''stream'' = Return stream'"
    and "\<not> isStreaming stream'"
    and "chat_select draw' messages (req_files req) = Return response'"
  shows "mock_chat parse draw b =
           Return \<lparr>status = 200, headers = sse_headers,
                   body = TextBody [Framed (JObj [(''content'', JStr response)]),
                                    Framed (JObj [(''done'', JBool True)])]\<rparr>
       \<and> chat_try parse' draw' now req =
           Return \<lparr>status = 200, headers = [],
                   body = JsonBody (JObj [(''content'', JStr response'),
                                          (''done'', JBool True),
                                          (''timestamp'', JStr now)])\<rparr>"
  using mock_chat_not_form [OF assms(1-3)] assms(4)
    chat_try_selected [OF assms(5,6,8), of now] assms(7)
  by (simp add: mock_streamData_def content_record_def done_record_def backend_json_def)

theorem non_streaming_reply_witness:
  "\<not> is_FormData (StringBody body_code_plain)
   \<and> mock_select draw_zero (snd (parse_body parse_sample (StringBody body_code_plain)))
       = Return (codeExamples ! 0)
   \<and> get_prop (fst (parse_body parse_sample (StringBody body_code_plain))) ''stream''
       = Return (Some (JBool False))
   \<and> \<not> truthy (Some (JBool False))
   \<and> backend_messages parse_sample (req_body req_code_plain) = Return (JArr [code_message])
   \<and> get_prop (req_body req_code_plain) ''stream'' = Return (Some (JBool False))
   \<and> \<not> isStreaming (Some (JBool False))
   \<and> chat_select draw_zero (JArr [code_message]) (req_files req_code_plain) = Return codeReply
   \<and> mock_chat parse_sample draw_zero (StringBody body_code_plain) =
         Return \<lparr>status = 200, headers = sse_headers,
                 body = TextBody [Framed (JObj [(''content'', JStr (codeExamples ! 0))]),
                                  Framed (JObj [(''done'', JBool True)])]\<rparr>
   \<and> chat_try parse_sample draw_zero sample_now req_code_plain =
         Return \<lparr>status = 200, headers = [],
                 body = JsonBody (JObj [(''content'', JStr codeReply),
                                        (''done'', JBool True),
                                        (''timestamp'', JStr sample_now)])\<rparr>"
proof -
  have h1: "\<not> is_FormData (StringBody body_code_plain)"
    by (simp add: is_FormData_def)
  have h2: "mock_select draw_zero (snd (parse_body parse_sample (StringBody body_code_plain)))
      = Return (codeExamples ! 0)"
    by (simp add: eval_defs codeExamples_def)
  have h3: "get_prop (fst (parse_body parse_sample (StringBody body_code_plain))) ''stream''
      = Return (Some (JBool False))"
    by (simp add: eval_defs)
  have h4: "\<not> truthy (Some (JBool False))" by simp
  have h5: "backend_messages parse_sample (req_body req_code_plain)
      = Return (JArr [code_message])"
    by (simp add: eval_defs)
  have h6: "get_prop (req_body req_code_plain) ''stream'' = Return (Some (JBool False))"
    by (simp add: req_code_plain_def)
  have h7: "\<not> isStreaming (Some (JBool False))" by (simp add: isStreaming_def)
  have h8: "chat_select draw_zero (JArr [code_message]) (req_files req_code_plain) = Return codeReply"
    by (simp add: eval_defs)
  from non_streaming_reply [OF h1 h2 h3 h4 h5 h6 h7 h8, where now = sample_now]
    h1 h2 h3 h4 h5 h6 h7 h8
  show ?thesis by (elim conjE) (intro conjI; assumption)
qed

text \<open>
  C2 as stated fails on the route: the request \<^verbatim>\<open>{messages: [{role: "user", content:
  "show me some code"}], stream: false}\<close> is answered with one JSON object, not with two
  event records.
\<close>

theorem plain_json_counterexample:
  "chat_handler parse_sample draw_zero sample_now req_code_plain =
     Some \<lparr>status = 200, headers = [],
           body = JsonBody (JObj [(''content'', JStr codeReply),
                                  (''done'', JBool True),
                                  (''timestamp'', JStr sample_now)])\<rparr>
   \<and> body (the (chat_handler parse_sample draw_zero sample_now req_code_plain)) \<noteq>
       TextBody [Framed (JObj [(''content'', JStr codeReply)]),
                 Framed (JObj [(''done'', JBool True)])]
   \<and> body (the (chat_handler parse_sample draw_zero sample_now req_code_plain)) \<noteq>
       StreamBody [Framed (JObj [(''content'', JStr codeReply)]),
                   Framed (JObj [(''done'', JBool True)])]"
proof -
  have "chat_try parse_sample draw_zero sample_now req_code_plain =
      Return \<lparr>status = 200, headers = [],
              body = JsonBody (backend_json sample_now codeReply)\<rparr>"
    by (simp add: chat_try_def eval_defs)
  then show ?thesis by (simp add: chat_handler_def backend_json_def)
qed

section \<open>Streaming: where the space goes\<close>

text \<open>
  C3 (as amended). In streaming mode the reply is cut at every single space. The route
  handler writes each piece followed by a space, except the last piece, which is written
  bare. The interceptor writes the first piece bare and every later piece preceded by a
  space: there the space leads the fragment instead of trailing the one before.
\<close>

theorem fragment_spacing:
  "backend_contents response =
     map (\<lambda>w. w @ '' '') (butlast (split_space response)) @ [last (split_space response)]
   \<and> mock_contents response =
     hd (split_space response) # map (\<lambda>w. '' '' @ w) (tl (split_space response))"
  using backend_contents_shape [of response] mock_contents_shape [of response] by simp

text \<open>
  C3 as stated fails on the interceptor: for the request
  \<^verbatim>\<open>{messages: [{role: "user", content: "Hello"}], stream: true}\<close> and the draw \<open>0\<close> the
  reply is the first general text, whose first fragments are \<^verbatim>\<open>I'm\<close>, \<^verbatim>\<open> a\<close>, \<^verbatim>\<open> demo\<close>,
  where the claim has \<^verbatim>\<open>I'm \<close>, \<^verbatim>\<open>a \<close>, \<^verbatim>\<open>demo \<close>.
\<close>

theorem leading_space_counterexample:
  "mock_chat parse_sample draw_zero (StringBody body_hello_stream) =
     Return \<lparr>status = 200, headers = sse_headers,
             body = StreamBody (mock_stream (mockResponses ! 0))\<rparr>
   \<and> take 3 (mock_contents (mockResponses ! 0)) = [''I'm'', '' a'', '' demo'']
   \<and> take 3 (spec_fragments (mockResponses ! 0)) = [''I'm '', ''a '', ''demo '']"
proof -
  have "mock_chat parse_sample draw_zero (StringBody body_hello_stream) =
     Return \<lparr>status = 200, headers = sse_headers,
             body = StreamBody (mock_stream (mockResponses ! 0))\<rparr>"
    by (simp add: mock_chat_def eval_defs mockResponses_def)
  moreover have "take 3 (mock_contents (mockResponses ! 0)) = [''I'm'', '' a'', '' demo'']"
    by (simp add: mock_contents_shape mockResponses_def)
  moreover have "take 3 (spec_fragments (mockResponses ! 0)) = [''I'm '', ''a '', ''demo '']"
    by (simp add: spec_fragments_def spec_words_def is_space_def mockResponses_def)
  ultimately show ?thesis by simp
qed

section \<open>The streaming flag\<close>

text \<open>
  C4 (as amended). On the route, a request is answered in streaming mode if and only if
  its \<^verbatim>\<open>stream\<close> field is the boolean \<^verbatim>\<open>true\<close> or the text \<^verbatim>\<open>"true"\<close>. On the
  interceptor (a body that is not form data), it is answered in streaming mode if and
  only if the \<^verbatim>\<open>stream\<close> field of the parsed body is truthy: any value other than absent,
  \<^verbatim>\<open>null\<close>, \<^verbatim>\<open>false\<close>, \<^verbatim>\<open>0\<close> and the empty text.
\<close>

theorem streaming_flag:
  assumes "\<not> is_FormData b"
    and "mock_chat parse draw b = Return r"
    and "get_prop (fst (parse_body parse b)) ''stream'' = Return stream"
    and "chat_try parse' draw' now req = Return r'"
    and "get_prop (req_body req) ''stream'' = Return stream'"
  shows "(is_streamed r \<longleftrightarrow> truthy stream)
       \<and> (is_streamed r' \<longleftrightarrow> (stream' = Some (JBool True) \<or> stream' = Some (JStr ''true'')))"
proof
  obtain response where sel: "mock_select draw (snd (parse_body parse b)) = Return response"
    using assms(1,2)
    by (cases b; cases "mock_select draw (snd (parse_body parse b))")
       (simp_all add: mock_chat_def is_FormData_def)
  show "is_streamed r \<longleftrightarrow> truthy stream"
    using mock_chat_not_form [OF assms(1) sel assms(3)] assms(2)
    by (auto simp: is_streamed_def split: if_splits)
next
  obtain messages where ms: "backend_messages parse' (req_body req) = Return messages"
    using assms(4)
    by (cases "backend_messages parse' (req_body req)") (simp_all add: chat_try_def)
  obtain response where sel: "chat_select draw' messages (req_files req) = Return response"
    using assms(4,5) ms
    by (cases "chat_select draw' messages (req_files req)") (simp_all add: chat_try_def)
  show "is_streamed r' \<longleftrightarrow> (stream' = Some (JBool True) \<or> stream' = Some (JStr ''true''))"
    using chat_try_selected [OF ms assms(5) sel, of now] assms(4)
    by (auto simp: is_streamed_def isStreaming_def split: if_splits)
qed

theorem streaming_flag_witness:
  "\<not> is_FormData (StringBody body_stream_text)
   \<and> mock_chat parse_sample draw_zero (StringBody body_stream_text) =
       Return \<lparr>status = 200, headers = sse_headers,
               body = StreamBody (mock_stream (mockResponses ! 0))\<rparr>
   \<and> get_prop (fst (parse_body parse_sample (StringBody body_stream_text))) ''stream''
       = Return (Some (JStr ''false''))
   \<and> chat_try parse_sample draw_zero sample_now req_code_plain =
       Return \<lparr>status = 200, headers = [],
               body = JsonBody (backend_json sample_now codeReply)\<rparr>
   \<and> get_prop (req_body req_code_plain) ''stream'' = Return (Some (JBool False))
   \<and> (is_streamed \<lparr>status = 200, headers = sse_headers,
                    body = StreamBody (mock_stream (mockResponses ! 0))\<rparr>
        \<longleftrightarrow> truthy (Some (JStr ''false'')))
   \<and> (is_streamed \<lparr>status = 200, headers = [],
                    body = JsonBody (backend_json sample_now codeReply)\<rparr>
        \<longleftrightarrow> (Some (JBool False) = Some (JBool True)
             \<or> Some (JBool False) = Some (JStr ''true'')))"
proof -
  have h1: "\<not> is_FormData (StringBody body_stream_text)"
    by (simp add: is_FormData_def)
  have h2: "mock_chat parse_sample draw_zero (StringBody body_stream_text) =
       Return \<lparr>status = 200, headers = sse_headers,
               body = StreamBody (mock_stream (mockResponses ! 0))\<rparr>"
    by (simp add: mock_chat_def eval_defs mockResponses_def)
  have h3: "get_prop (fst (parse_body parse_sample (StringBody body_stream_text))) ''stream''
       = Return (Some (JStr ''false''))"
    by (simp add: eval_defs)
  have h4: "chat_try parse_sample draw_zero sample_now req_code_plain =
       Return \<lparr>status = 200, headers = [],
               body = JsonBody (backend_json sample_now codeReply)\<rparr>"
    by (simp add: chat_try_def eval_defs)
  have h5: "get_prop (req_body req_code_plain) ''stream'' = Return (Some (JBool False))"
    by (simp add: req_code_plain_def)
  from streaming_flag [OF h1 h2 h3 h4 h5] h1 h2 h3 h4 h5
  show ?thesis by (elim conjE) (intro conjI; assumption)
qed

text \<open>
  C4 as stated fails on the interceptor: the body \<^verbatim>\<open>{"messages":[],"stream":"false"}\<close>,
  whose \<^verbatim>\<open>stream\<close> is neither \<^verbatim>\<open>true\<close> nor \<^verbatim>\<open>"true"\<close>, is answered in streaming mode.
\<close>

theorem truthy_stream_counterexample:
  "get_prop (fst (parse_body parse_sample (StringBody body_stream_text))) ''stream''
       = Return (Some (JStr ''false''))
   \<and> Some (JStr ''false'') \<noteq> Some (JBool True)
   \<and> Some (JStr ''false'') \<noteq> Some (JStr ''true'')
   \<and> mock_chat parse_sample draw_zero (StringBody body_stream_text) =
       Return \<lparr>status = 200, headers = sse_headers,
               body = StreamBody (mock_stream (mockResponses ! 0))\<rparr>"
proof -
  have "mock_chat parse_sample draw_zero (StringBody body_stream_text) =
       Return \<lparr>status = 200, headers = sse_headers,
               body = StreamBody (mock_stream (mockResponses ! 0))\<rparr>"
    by (simp add: mock_chat_def eval_defs mockResponses_def)
  moreover have "get_prop (fst (parse_body parse_sample (StringBody body_stream_text)))
      ''stream'' = Return (Some (JStr ''false''))"
    by (simp add: eval_defs)
  ultimately show ?thesis by simp
qed

section \<open>Keywords, names and draws\<close>

lemma startsWith_append: "startsWith (p @ ys) p"
  by (induction p) auto

lemma str_includes_append: "str_includes (xs @ p @ ys) p"
proof (induction xs)
  case Nil
  show ?case by (cases "p @ ys") (use startsWith_append [of p ys] in auto)
next
  case (Cons x xs)
  then show ?case by simp
qed




lemma pick_in_range:
  "draw (length xs) < length xs \<Longrightarrow> pick draw xs = Some (xs ! draw (length xs))"
  by (simp add: pick_def Let_def)


lemma generateResponse_file_upload:
  "generateResponse draw ''file upload'' = pick draw mockResponses"
  by (simp add: generateResponse_def lower_char_def)

lemma length_mockResponses: "length mockResponses = 5"
  by (simp add: mockResponses_def)



section \<open>The priority of the file branch\<close>



section \<open>Malformed input\<close>




section \<open>A file of a type that is not allowed\<close>

text \<open>
  C7. A multipart request with one file part of type \<^verbatim>\<open>application/zip\<close> is rejected by
  the filter before the handler runs, and the error-handling middleware answers it. The
  payload names the type, but the status is 500 with the label \<^verbatim>\<open>Server error\<close>, not a
  status of the 4xx class: the middleware answers 400 only for the size and count limits.
\<close>

theorem disallowed_type_is_500:
  "post_api_chat parse_sample draw_zero sample_now (JObj [(''messages'', JStr ''[]'')])
     (Some [\<lparr>originalname = ''archive.zip'', mimetype = ''application/zip'', size = 1024\<rparr>]) =
     Some \<lparr>status = 500, headers = [],
           body = ErrorBody ''Server error''
                    (Some (Error ''File type application/zip not allowed''))\<rparr>"
  by (simp add: post_api_chat_def fileFilter_def allowedTypes_def limit_files_def
      error_middleware_def)

section \<open>An empty message sequence\<close>




section \<open>Calls that are not for the chat endpoint\<close>

lemma startsWith_iff: "startsWith s p \<longleftrightarrow> (\<exists>r. s = p @ r)"
  by (induction s p rule: startsWith.induct) auto

lemma endsWith_includes: "endsWith s p \<Longrightarrow> str_includes s p"
proof -
  assume "endsWith s p"
  then obtain r where "rev s = rev p @ r"
    by (auto simp: endsWith_def startsWith_iff)
  then have "s = rev r @ p @ []"
    by (metis append_Nil2 rev_append rev_rev_ident)
  then show ?thesis using str_includes_append [of "rev r" p "[]"] by simp
qed

lemma isApiCall_mentions: "isApiCall u \<longleftrightarrow> mentions_chat u"
  by (cases u) (auto simp: isApiCall_def mentions_chat_def dest: endsWith_includes)

text \<open>
  C9 (as amended). A call whose URL does not contain the text \<^verbatim>\<open>/api/chat\<close> (a string
  that contains it nowhere, a \<^verbatim>\<open>URL\<close> object whose pathname does not contain it, or an
  argument that is neither) is handed to the original fetch with the same URL and the
  same options, and the result of the wrapper is the result of that call. A call whose
  string or pathname contains \<^verbatim>\<open>/api/chat\<close> anywhere is answered by the wrapper and never
  reaches the original fetch, also when it is for another path.
\<close>

theorem pass_through:
  "(\<not> mentions_chat u \<longrightarrow>
      window_fetch originalFetch parse draw u options = Original (originalFetch u options))
   \<and> (mentions_chat u \<longrightarrow>
      window_fetch originalFetch parse draw u options \<noteq> Original x)"
  by (auto simp: window_fetch_def isApiCall_mentions split: js.splits)

theorem pass_through_witness:
  "\<not> mentions_chat (UrlString ''/api/health'')
   \<and> window_fetch Pair parse_sample draw_zero (UrlString ''/api/health'')
        \<lparr>opt_method = Some ''GET'', opt_headers = [(''Accept'', ''application/json'')],
          opt_body = StringBody ''{''\<rparr>
      = Original (UrlString ''/api/health'',
          \<lparr>opt_method = Some ''GET'', opt_headers = [(''Accept'', ''application/json'')],
            opt_body = StringBody ''{''\<rparr>)
   \<and> mentions_chat (UrlString ''/api/chat'')
   \<and> window_fetch Pair parse_sample draw_zero (UrlString ''/api/chat'')
        \<lparr>opt_method = Some ''POST'', opt_headers = [], opt_body = StringBody ''{''\<rparr>
      \<noteq> Original (UrlString ''/api/chat'',
          \<lparr>opt_method = Some ''POST'', opt_headers = [], opt_body = StringBody ''{''\<rparr>)"
proof -
  have h: "\<not> mentions_chat (UrlString ''/api/health'')"
    by (simp add: mentions_chat_def)
  have h': "mentions_chat (UrlString ''/api/chat'')"
    by (simp add: mentions_chat_def)
  from pass_through [of "UrlString ''/api/health''" Pair parse_sample draw_zero] h
  have a: "window_fetch Pair parse_sample draw_zero (UrlString ''/api/health'')
        \<lparr>opt_method = Some ''GET'', opt_headers = [(''Accept'', ''application/json'')],
          opt_body = StringBody ''{''\<rparr>
      = Original (UrlString ''/api/health'',
          \<lparr>opt_method = Some ''GET'', opt_headers = [(''Accept'', ''application/json'')],
            opt_body = StringBody ''{''\<rparr>)"
    by simp
  from pass_through [of "UrlString ''/api/chat''" Pair parse_sample draw_zero] h'
  have b: "window_fetch Pair parse_sample draw_zero (UrlString ''/api/chat'')
        \<lparr>opt_method = Some ''POST'', opt_headers = [], opt_body = StringBody ''{''\<rparr>
      \<noteq> Original (UrlString ''/api/chat'',
          \<lparr>opt_method = Some ''POST'', opt_headers = [], opt_body = StringBody ''{''\<rparr>)"
    by simp
  from h h' a b show ?thesis by simp
qed

text \<open>
  C9 as stated fails: a call to the path \<^verbatim>\<open>/api/chat-history\<close>, which is not the chat
  endpoint \<^verbatim>\<open>/api/chat\<close>, is not passed to the original fetch. Given as a string or as a
  \<^verbatim>\<open>URL\<close> object with that pathname, the wrapper answers it itself with a reply of the
  general category.
\<close>

theorem other_path_counterexample:
  "''/api/chat-history'' \<noteq> ''/api/chat''
   \<and> window_fetch Pair parse_sample draw_zero (UrlString ''/api/chat-history'')
        \<lparr>opt_method = Some ''GET'', opt_headers = [], opt_body = OtherBody\<rparr>
      = Mocked \<lparr>status = 200, headers = sse_headers,
                body = TextBody [Framed (JObj [(''content'', JStr (mockResponses ! 0))]),
                                 Framed (JObj [(''done'', JBool True)])]\<rparr>
   \<and> window_fetch Pair parse_sample draw_zero (UrlObject ''/api/chat-history'')
        \<lparr>opt_method = Some ''GET'', opt_headers = [], opt_body = OtherBody\<rparr>
      = Mocked \<lparr>status = 200, headers = sse_headers,
                body = TextBody [Framed (JObj [(''content'', JStr (mockResponses ! 0))]),
                                 Framed (JObj [(''done'', JBool True)])]\<rparr>
   \<and> window_fetch Pair parse_sample draw_zero (UrlString ''/api/chat-history'')
        \<lparr>opt_method = Some ''GET'', opt_headers = [], opt_body = OtherBody\<rparr>
      \<noteq> Original (UrlString ''/api/chat-history'',
          \<lparr>opt_method = Some ''GET'', opt_headers = [], opt_body = OtherBody\<rparr>)"
proof -
  have m: "mock_chat parse_sample draw_zero OtherBody =
      Return \<lparr>status = 200, headers = sse_headers,
              body = TextBody (mock_streamData (mockResponses ! 0))\<rparr>"
    by (simp add: mock_chat_def eval_defs lower_char_def mockResponses_def)
  have s: "isApiCall (UrlString ''/api/chat-history'')"
    by (simp add: isApiCall_def)
  have o: "isApiCall (UrlObject ''/api/chat-history'')"
    by (simp add: isApiCall_def)
  from m s o show ?thesis
    by (simp add: window_fetch_def mock_streamData_def content_record_def done_record_def)
qed

section \<open>Form-data requests on the interceptor\<close>

text \<open>
  C10. On the interceptor every chat request with a form-data body is answered with one
  JSON text of the shape \<^verbatim>\<open>{choices: [{message: {content: text}}]}\<close>, status 200 and
  content type \<^verbatim>\<open>application/json\<close>. The text is the acknowledgment of the \<^verbatim>\<open>file_\<close>
  entries when there is one, and otherwise the text of the general category at the index
  drawn; it depends on no other entry of the form, so neither a \<^verbatim>\<open>stream\<close> entry nor the
  messages are consulted.
\<close>

theorem formdata_atomic_json:
  assumes "isApiCall u"
    and "opt_body options = FormData entries"
    and "draw 5 < 5"
  shows "window_fetch originalFetch parse draw u options =
     Mocked \<lparr>status = 200, headers = [(''Content-Type'', ''application/json'')],
             body = JsonBody (JObj [(''choices'', JArr [JObj [(''message'',
               JObj [(''content'', JStr
                 (if form_files entries = [] then mockResponses ! draw 5
                  else fileResponse_text (form_files entries)))])]])])\<rparr>"
proof -
  have "generateResponse draw ''file upload'' = Some (mockResponses ! draw 5)"
    using pick_in_range [of draw mockResponses] assms(3)
    by (simp add: generateResponse_file_upload length_mockResponses)
  then have "formdata_response draw entries =
     Return \<lparr>status = 200, headers = [(''Content-Type'', ''application/json'')],
             body = JsonBody (choices_body
                 (if form_files entries = [] then mockResponses ! draw 5
                  else fileResponse_text (form_files entries)))\<rparr>"
    by (simp add: formdata_response_def Let_def)
  then show ?thesis
    using assms(1,2) by (simp add: window_fetch_def mock_chat_def choices_body_def)
qed

theorem formdata_atomic_json_witness:
  "isApiCall (UrlString ''/api/chat'')
   \<and> draw_six_tenths 5 < 5
   \<and> window_fetch Pair parse_sample draw_six_tenths (UrlString ''/api/chat'')
        \<lparr>opt_method = Some ''POST'', opt_headers = [],
          opt_body = FormData [(''messages'', TextValue body_code_plain),
                               (''stream'', TextValue ''true''),
                               (''file_0'', FileValue ''report.pdf'')]\<rparr> =
      Mocked \<lparr>status = 200, headers = [(''Content-Type'', ''application/json'')],
              body = JsonBody (JObj [(''choices'', JArr [JObj [(''message'',
                JObj [(''content'', JStr (fileResponse_text [Some ''report.pdf'']))])]])])\<rparr>
   \<and> window_fetch Pair parse_sample draw_six_tenths (UrlString ''/api/chat'')
        \<lparr>opt_method = Some ''POST'', opt_headers = [],
          opt_body = FormData [(''messages'', TextValue body_code_plain),
                               (''stream'', TextValue ''true'')]\<rparr> =
      Mocked \<lparr>status = 200, headers = [(''Content-Type'', ''application/json'')],
              body = JsonBody (JObj [(''choices'', JArr [JObj [(''message'',
                JObj [(''content'', JStr (mockResponses ! 3))])]])])\<rparr>"
proof -
  have h1: "isApiCall (UrlString ''/api/chat'')"
    by (simp add: isApiCall_def)
  have h3: "draw_six_tenths 5 < 5" by (simp add: draw_six_tenths_def)
  have d: "draw_six_tenths 5 = 3" by (simp add: draw_six_tenths_def)
  have a: "window_fetch Pair parse_sample draw_six_tenths (UrlString ''/api/chat'')
        \<lparr>opt_method = Some ''POST'', opt_headers = [],
          opt_body = FormData [(''messages'', TextValue body_code_plain),
                               (''stream'', TextValue ''true''),
                               (''file_0'', FileValue ''report.pdf'')]\<rparr> =
      Mocked \<lparr>status = 200, headers = [(''Content-Type'', ''application/json'')],
              body = JsonBody (JObj [(''choices'', JArr [JObj [(''message'',
                JObj [(''content'', JStr (fileResponse_text [Some ''report.pdf'']))])]])])\<rparr>"
    using formdata_atomic_json [where draw = draw_six_tenths and originalFetch = Pair
        and parse = parse_sample and entries =
        "[(''messages'', TextValue body_code_plain), (''stream'', TextValue ''true''),
          (''file_0'', FileValue ''report.pdf'')]", OF h1 _ h3]
    by simp
  have b: "window_fetch Pair parse_sample draw_six_tenths (UrlString ''/api/chat'')
        \<lparr>opt_method = Some ''POST'', opt_headers = [],
          opt_body = FormData [(''messages'', TextValue body_code_plain),
                               (''stream'', TextValue ''true'')]\<rparr> =
      Mocked \<lparr>status = 200, headers = [(''Content-Type'', ''application/json'')],
              body = JsonBody (JObj [(''choices'', JArr [JObj [(''message'',
                JObj [(''content'', JStr (mockResponses ! 3))])]])])\<rparr>"
    using formdata_atomic_json [where draw = draw_six_tenths and originalFetch = Pair
        and parse = parse_sample and entries =
        "[(''messages'', TextValue body_code_plain), (''stream'', TextValue ''true'')]",
        OF h1 _ h3]
    by (simp add: d)
  from h1 h3 a b show ?thesis by simp
qed

end
